theory Spec2Isabelle
  imports Main "HOL-Library.Sublist"
begin

section \<open>The greeting function of the packaging notebook\<close>

text \<open>
  The notebook \<^verbatim>\<open>module06_software_projects/06_04_packaging.ipynb\<close> packages a
  greeting utility. Its Documentation section gives the definition of \<^verbatim>\<open>greet\<close>;
  the unit test \<^verbatim>\<open>test_greeter\<close> and the recorded cell outputs give the strings
  the installed package produced. Python strings are modelled as \<^typ>\<open>string\<close>;
  concatenation and the emptiness test, the only string operations of the code, act on
  them as they do on Python's \<^verbatim>\<open>str\<close>.
\<close>

subsection \<open>The colour constants\<close>

text \<open>
  \<^verbatim>\<open>Fore\<close> is an object of the colorama library, which the package depends on and
  which is no part of the repository. \<^verbatim>\<open>greet\<close> reads three of its attributes, so the
  model takes the object as a parameter: a record of the three strings.
\<close>

record AnsiFore =
  GREEN :: string
  BLUE :: string
  RED :: string

definition ESC :: char where
  "ESC = CHR 0x1B"

text \<open>
  The values colorama gives the three attributes: the ANSI sequences
  \<^verbatim>\<open>\x1b[32m\<close>, \<^verbatim>\<open>\x1b[34m\<close> and \<^verbatim>\<open>\x1b[31m\<close>.
\<close>

definition colorama_Fore :: AnsiFore where
  "colorama_Fore = \<lparr>GREEN = ESC # ''[32m'', BLUE = ESC # ''[34m'', RED = ESC # ''[31m''\<rparr>"

subsection \<open>greet\<close>

text \<open>
  \<^verbatim>\<open>
  def greet(personal, family, title="", polite=False):
      greeting = "How do you do, " if polite else "Hey, "
      greeting = Fore.GREEN + greeting
      if title:
          greeting += Fore.BLUE + title + " "

      greeting += Fore.RED + personal + " " + family + "."
      return greeting
  \<close>
  Each assignment to the local variable is one binding of the \<open>let\<close>; \<^verbatim>\<open>if title\<close>
  tests that the string is not empty.
\<close>

definition greet :: "AnsiFore \<Rightarrow> string \<Rightarrow> string \<Rightarrow> string \<Rightarrow> bool \<Rightarrow> string" where
  "greet Fore personal family title polite =
     (let greeting = (if polite then ''How do you do, '' else ''Hey, '');
          greeting = GREEN Fore @ greeting;
          greeting = (if title \<noteq> [] then greeting @ (BLUE Fore @ title @ '' '') else greeting);
          greeting = greeting @ (RED Fore @ personal @ '' '' @ family @ ''.'')
      in greeting)"

text \<open>
  A call by keywords, as \<^verbatim>\<open>greet(**inp)\<close> in the test: the two optional parameters
  may be absent, and an absent one takes the default of the signature
  (\<^verbatim>\<open>title=""\<close>, \<^verbatim>\<open>polite=False\<close>).
\<close>

record kwargs =
  kw_personal :: string
  kw_family :: string
  kw_title :: "string option"
  kw_polite :: "bool option"

definition greet_kw :: "AnsiFore \<Rightarrow> kwargs \<Rightarrow> string" where
  "greet_kw Fore kw =
     greet Fore (kw_personal kw) (kw_family kw)
       (case kw_title kw of None \<Rightarrow> [] | Some t \<Rightarrow> t)
       (case kw_polite kw of None \<Rightarrow> False | Some b \<Rightarrow> b)"

text \<open>
  The result as the specification words it: ``choose a salutation phrase based on a
  boolean flag, optionally insert a title token, concatenate personal and family name,
  and prepend fixed presentation markup''. This definition follows those words, with the
  markup, the phrases and the title token of the code, to be compared with \<open>greet\<close>.
\<close>

definition specified_greeting :: "AnsiFore \<Rightarrow> string \<Rightarrow> string \<Rightarrow> string \<Rightarrow> bool \<Rightarrow> string" where
  "specified_greeting Fore personal family title polite =
     GREEN Fore @ (if polite then ''How do you do, '' else ''Hey, '')
       @ (if title \<noteq> [] then BLUE Fore @ title @ '' '' else [])
       @ (personal @ '' '' @ family)"

subsection \<open>The unit test\<close>

text \<open>
  \<^verbatim>\<open>
  def test_greeter():
      inputs = [
          {"personal": "James", "family": "Hetherington"},
          {"personal": "James", "family": "Hetherington", "polite": True},
          {"personal": "James", "family": "Hetherington", "title": "Dr"},
      ]
      outputs = [  # codes like \x1b[32m are colours
          "\x1b[40m\x1b[33mHey, \x1b[47m\x1b[1m\x1b[31mJames Hetherington",
          "\x1b[40m\x1b[33mHow do you do, \x1b[47m\x1b[1m\x1b[31mJames Hetherington",
          "\x1b[40m\x1b[33mHey, \x1b[44m\x1b[37mDr \x1b[47m\x1b[1m\x1b[31mJames Hetherington",
      ]
      for inp, out in zip(inputs, outputs):
          assert greet(**inp) == out
  \<close>
  The expected strings are also the lines the notebook records for the call
  \<^verbatim>\<open>print(greet("James", "Hetherington"))\<close> and for the three runs of the
  \<^verbatim>\<open>greet\<close> command.
\<close>

datatype error = AssertionError | TypeError | NameError | AttributeError

definition inputs :: "kwargs list" where
  "inputs =
     [\<lparr>kw_personal = ''James'', kw_family = ''Hetherington'', kw_title = None, kw_polite = None\<rparr>,
      \<lparr>kw_personal = ''James'', kw_family = ''Hetherington'', kw_title = None, kw_polite = Some True\<rparr>,
      \<lparr>kw_personal = ''James'', kw_family = ''Hetherington'', kw_title = Some ''Dr'', kw_polite = None\<rparr>]"

definition outputs :: "string list" where
  "outputs =
     [ESC # ''[40m'' @ ESC # ''[33mHey, '' @ ESC # ''[47m'' @ ESC # ''[1m'' @ ESC # ''[31mJames Hetherington'',
      ESC # ''[40m'' @ ESC # ''[33mHow do you do, '' @ ESC # ''[47m'' @ ESC # ''[1m''
        @ ESC # ''[31mJames Hetherington'',
      ESC # ''[40m'' @ ESC # ''[33mHey, '' @ ESC # ''[44m'' @ ESC # ''[37mDr '' @ ESC # ''[47m''
        @ ESC # ''[1m'' @ ESC # ''[31mJames Hetherington'']"

text \<open>The loop of assertions: the first one that fails raises and ends the test.\<close>

fun assert_each :: "AnsiFore \<Rightarrow> (kwargs \<times> string) list \<Rightarrow> error + unit" where
  "assert_each Fore [] = Inr ()"
| "assert_each Fore ((inp, out) # rest) =
     (if greet_kw Fore inp = out then assert_each Fore rest else Inl AssertionError)"

definition test_greeter :: "AnsiFore \<Rightarrow> error + unit" where
  "test_greeter Fore = assert_each Fore (zip inputs outputs)"

subsection \<open>greet on arbitrary Python values\<close>

text \<open>
  Python checks no parameter type at the call: the body fails where \<^verbatim>\<open>+\<close> meets
  operands it cannot add. The values below are those a caller of the package can pass
  (a string, a Boolean, an integer, \<^verbatim>\<open>None\<close>); \<open>py_add\<close> is \<^verbatim>\<open>+\<close> on them,
  raising \<^verbatim>\<open>TypeError\<close> for a string and a non-string, and \<open>py_truthy\<close> is the
  truth value an \<^verbatim>\<open>if\<close> gives them.
\<close>

datatype pyval = PyStr string | PyBool bool | PyInt int | PyNone

fun py_truthy :: "pyval \<Rightarrow> bool" where
  "py_truthy (PyStr s) = (s \<noteq> [])"
| "py_truthy (PyBool b) = b"
| "py_truthy (PyInt i) = (i \<noteq> 0)"
| "py_truthy PyNone = False"

fun as_number :: "pyval \<Rightarrow> int option" where
  "as_number (PyInt i) = Some i"
| "as_number (PyBool b) = Some (if b then 1 else 0)"
| "as_number (PyStr s) = None"
| "as_number PyNone = None"

fun py_add :: "pyval \<Rightarrow> pyval \<Rightarrow> error + pyval" where
  "py_add (PyStr a) (PyStr b) = Inr (PyStr (a @ b))"
| "py_add a b =
     (case (as_number a, as_number b) of
        (Some i, Some j) \<Rightarrow> Inr (PyInt (i + j))
      | _ \<Rightarrow> Inl TypeError)"

definition and_then :: "error + 'a \<Rightarrow> ('a \<Rightarrow> error + 'b) \<Rightarrow> error + 'b" where
  "and_then r k = (case r of Inl e \<Rightarrow> Inl e | Inr v \<Rightarrow> k v)"

text \<open>
  The body of \<^verbatim>\<open>greet\<close> statement by statement, every \<^verbatim>\<open>+\<close> in Python's order
  of evaluation (left to right, the right-hand side of \<^verbatim>\<open>+=\<close> before the sum with
  the variable).
\<close>

definition greet_py :: "AnsiFore \<Rightarrow> pyval \<Rightarrow> pyval \<Rightarrow> pyval \<Rightarrow> pyval \<Rightarrow> error + pyval" where
  "greet_py Fore personal family title polite =
     (let greeting = (if py_truthy polite then PyStr ''How do you do, '' else PyStr ''Hey, '') in
      and_then (py_add (PyStr (GREEN Fore)) greeting) (\<lambda>greeting.
      and_then
        (if py_truthy title
         then and_then (py_add (PyStr (BLUE Fore)) title) (\<lambda>t1.
              and_then (py_add t1 (PyStr '' '')) (\<lambda>t2.
              py_add greeting t2))
         else Inr greeting) (\<lambda>greeting.
      and_then (py_add (PyStr (RED Fore)) personal) (\<lambda>n1.
      and_then (py_add n1 (PyStr '' '')) (\<lambda>n2.
      and_then (py_add n2 family) (\<lambda>n3.
      and_then (py_add n3 (PyStr ''.'')) (\<lambda>n4.
      py_add greeting n4)))))))"

subsection \<open>The statements of the body, run in their surroundings\<close>

text \<open>
  What a call of \<^verbatim>\<open>greet\<close> could touch besides its own local variables: the
  attributes of global objects (\<^verbatim>\<open>Fore.GREEN\<close> is the attribute \<open>(''Fore'', ''GREEN'')\<close>)
  and the standard output, one entry for each value printed.
\<close>

record pyworld =
  pw_globals :: "string \<times> string \<Rightarrow> pyval option"
  pw_stdout :: "pyval list"

text \<open>
  A running call: its local variables (the parameters among them) and the surroundings.
\<close>

record frame =
  fr_locals :: "string \<Rightarrow> pyval option"
  fr_world :: pyworld

text \<open>
  The expressions and statements of the notebook's Python, named after the nodes of
  Python's syntax tree: the body of \<^verbatim>\<open>greet\<close> is made of constants, names, attributes,
  \<^verbatim>\<open>+\<close>, one conditional expression, assignments, \<^verbatim>\<open>+=\<close>, \<^verbatim>\<open>if\<close> and
  \<^verbatim>\<open>return\<close>; the cell that uses the package calls \<^verbatim>\<open>print\<close>; an assignment to an
  attribute (\<^verbatim>\<open>Fore.GREEN = ...\<close>) is the statement that changes a global object.
\<close>

datatype expr =
  Constant pyval
| Name string
| Attribute string string
| Add expr expr
| IfExp expr expr expr

datatype stmt =
  Assign string expr
| AugAssign string expr
| IfStmt expr "stmt list"
| Return expr
| Print expr
| AttrAssign string string expr

text \<open>
  Evaluation of an expression: an unbound name raises \<^verbatim>\<open>NameError\<close>, a missing
  attribute \<^verbatim>\<open>AttributeError\<close>, and \<^verbatim>\<open>+\<close> is \<open>py_add\<close>, left operand first.
  \<open>IfExp test body orelse\<close> is \<^verbatim>\<open>body if test else orelse\<close>: the test is evaluated
  first, then one of the two.
\<close>

fun eval_expr :: "expr \<Rightarrow> frame \<Rightarrow> error + pyval" where
  "eval_expr (Constant v) s = Inr v"
| "eval_expr (Name x) s = (case fr_locals s x of None \<Rightarrow> Inl NameError | Some v \<Rightarrow> Inr v)"
| "eval_expr (Attribute obj a) s =
     (case pw_globals (fr_world s) (obj, a) of None \<Rightarrow> Inl AttributeError | Some v \<Rightarrow> Inr v)"
| "eval_expr (Add l r) s =
     (case eval_expr l s of
        Inl e \<Rightarrow> Inl e
      | Inr x \<Rightarrow> (case eval_expr r s of Inl e \<Rightarrow> Inl e | Inr y \<Rightarrow> py_add x y))"
| "eval_expr (IfExp test body orelse) s =
     (case eval_expr test s of
        Inl e \<Rightarrow> Inl e
      | Inr c \<Rightarrow> if py_truthy c then eval_expr body s else eval_expr orelse s)"

text \<open>
  A statement ends with an error, or with the frame it leaves and the way control goes
  on: to the next statement, or out of the function with the value returned.
\<close>

datatype control = Next | Returned pyval

fun exec_stmt :: "stmt \<Rightarrow> frame \<Rightarrow> error + control \<times> frame"
  and exec_block :: "stmt list \<Rightarrow> frame \<Rightarrow> error + control \<times> frame"
where
  "exec_stmt (Assign x e) s =
     (case eval_expr e s of
        Inl err \<Rightarrow> Inl err
      | Inr v \<Rightarrow> Inr (Next, s\<lparr>fr_locals := (fr_locals s)(x \<mapsto> v)\<rparr>))"
| "exec_stmt (AugAssign x e) s =
     (case fr_locals s x of
        None \<Rightarrow> Inl NameError
      | Some old \<Rightarrow>
          (case eval_expr e s of
             Inl err \<Rightarrow> Inl err
           | Inr v \<Rightarrow>
               (case py_add old v of
                  Inl err \<Rightarrow> Inl err
                | Inr new \<Rightarrow> Inr (Next, s\<lparr>fr_locals := (fr_locals s)(x \<mapsto> new)\<rparr>))))"
| "exec_stmt (IfStmt test body) s =
     (case eval_expr test s of
        Inl err \<Rightarrow> Inl err
      | Inr c \<Rightarrow> if py_truthy c then exec_block body s else Inr (Next, s))"
| "exec_stmt (Return e) s =
     (case eval_expr e s of Inl err \<Rightarrow> Inl err | Inr v \<Rightarrow> Inr (Returned v, s))"
| "exec_stmt (Print e) s =
     (case eval_expr e s of
        Inl err \<Rightarrow> Inl err
      | Inr v \<Rightarrow>
          Inr (Next, s\<lparr>fr_world := (fr_world s)\<lparr>pw_stdout := pw_stdout (fr_world s) @ [v]\<rparr>\<rparr>))"
| "exec_stmt (AttrAssign obj a e) s =
     (case eval_expr e s of
        Inl err \<Rightarrow> Inl err
      | Inr v \<Rightarrow>
          Inr (Next,
            s\<lparr>fr_world := (fr_world s)\<lparr>pw_globals := (pw_globals (fr_world s))((obj, a) \<mapsto> v)\<rparr>\<rparr>))"
| "exec_block [] s = Inr (Next, s)"
| "exec_block (x # xs) s =
     (case exec_stmt x s of
        Inl err \<Rightarrow> Inl err
      | Inr (Next, s') \<Rightarrow> exec_block xs s'
      | Inr (Returned v, s') \<Rightarrow> Inr (Returned v, s'))"

text \<open>
  The body of \<^verbatim>\<open>greet\<close>, statement by statement:
  \<^verbatim>\<open>
      greeting = "How do you do, " if polite else "Hey, "
      greeting = Fore.GREEN + greeting
      if title:
          greeting += Fore.BLUE + title + " "

      greeting += Fore.RED + personal + " " + family + "."
      return greeting
  \<close>
\<close>

definition greet_body :: "stmt list" where
  "greet_body =
     [Assign ''greeting''
        (IfExp (Name ''polite'') (Constant (PyStr ''How do you do, '')) (Constant (PyStr ''Hey, ''))),
      Assign ''greeting'' (Add (Attribute ''Fore'' ''GREEN'') (Name ''greeting'')),
      IfStmt (Name ''title'')
        [AugAssign ''greeting''
           (Add (Add (Attribute ''Fore'' ''BLUE'') (Name ''title'')) (Constant (PyStr '' '')))],
      AugAssign ''greeting''
        (Add (Add (Add (Add (Attribute ''Fore'' ''RED'') (Name ''personal'')) (Constant (PyStr '' '')))
           (Name ''family'')) (Constant (PyStr ''.''))),
      Return (Name ''greeting'')]"

text \<open>
  A call: the four parameters are the local variables the body starts with; the call
  gives the value returned (\<^verbatim>\<open>None\<close> if the body ends without \<^verbatim>\<open>return\<close>) and the
  surroundings it leaves behind, or the error raised.
\<close>

definition call_greet ::
  "pyworld \<Rightarrow> pyval \<Rightarrow> pyval \<Rightarrow> pyval \<Rightarrow> pyval \<Rightarrow> error + pyval \<times> pyworld" where
  "call_greet w personal family title polite =
     (case exec_block greet_body
         \<lparr>fr_locals = [''personal'' \<mapsto> personal, ''family'' \<mapsto> family,
                       ''title'' \<mapsto> title, ''polite'' \<mapsto> polite],
          fr_world = w\<rparr> of
        Inl err \<Rightarrow> Inl err
      | Inr (Returned v, s) \<Rightarrow> Inr (v, fr_world s)
      | Inr (Next, s) \<Rightarrow> Inr (PyNone, fr_world s))"

text \<open>
  The surroundings hold the colour constants \<open>Fore\<close>: the three attributes the body
  reads are these strings. \<open>fore_globals\<close> are globals with nothing but them.
\<close>

definition holds_Fore :: "pyworld \<Rightarrow> AnsiFore \<Rightarrow> bool" where
  "holds_Fore w Fore =
     (pw_globals w (''Fore'', ''GREEN'') = Some (PyStr (GREEN Fore))
      \<and> pw_globals w (''Fore'', ''BLUE'') = Some (PyStr (BLUE Fore))
      \<and> pw_globals w (''Fore'', ''RED'') = Some (PyStr (RED Fore)))"

definition fore_globals :: "AnsiFore \<Rightarrow> string \<times> string \<Rightarrow> pyval option" where
  "fore_globals Fore =
     [(''Fore'', ''GREEN'') \<mapsto> PyStr (GREEN Fore),
      (''Fore'', ''BLUE'') \<mapsto> PyStr (BLUE Fore),
      (''Fore'', ''RED'') \<mapsto> PyStr (RED Fore)]"

text \<open>
  Whether a statement holds, at any depth, a statement that writes outside the frame:
  a \<^verbatim>\<open>print\<close> or an assignment to an attribute.
\<close>

fun writes_stmt :: "stmt \<Rightarrow> bool"
  and writes_block :: "stmt list \<Rightarrow> bool"
where
  "writes_stmt (Assign x e) = False"
| "writes_stmt (AugAssign x e) = False"
| "writes_stmt (IfStmt test body) = writes_block body"
| "writes_stmt (Return e) = False"
| "writes_stmt (Print e) = True"
| "writes_stmt (AttrAssign obj a e) = True"
| "writes_block [] = False"
| "writes_block (x # xs) = (writes_stmt x \<or> writes_block xs)"

subsection \<open>The surroundings of the command\<close>

text \<open>
  For the command, the surroundings are the colour constants and the lines written to
  the standard output. \<open>py_print\<close> is \<^verbatim>\<open>print\<close> of one string.
\<close>

record world =
  w_Fore :: AnsiFore
  w_stdout :: "string list"

definition py_print :: "string \<Rightarrow> world \<Rightarrow> world" where
  "py_print s w = w\<lparr>w_stdout := w_stdout w @ [s]\<rparr>"

subsection \<open>The command\<close>

text \<open>
  The package installs the command \<^verbatim>\<open>greet\<close>, which runs \<^verbatim>\<open>process\<close> of
  \<^verbatim>\<open>greetings/command.py\<close>. The notebook records its help text:
  \<^verbatim>\<open>
  usage: greet [-h] [--title TITLE] [--polite] personal family
  positional arguments:
    personal
    family
  optional arguments:
    -h, --help            show this help message and exit
    --title TITLE, -t TITLE
    --polite, -p
  \<close>
\<close>

text \<open>
  Modelled from the spec: \<^verbatim>\<open>command.py\<close> and the parser it builds are not in the
  sources. The spec gives ``a command invoked with two positional name arguments and two
  optional flags (a title value and a politeness switch)''. \<open>Namespace\<close> holds the
  four parsed arguments, under the names of the help text; a title that was not given is
  \<open>None\<close>.
\<close>

record Namespace =
  ns_personal :: string
  ns_family :: string
  ns_title :: "string option"
  ns_polite :: bool

text \<open>
  Modelled from the spec: the parser's test for an optional argument, a word that starts
  with a hyphen, as every optional argument of the help text does.
\<close>

definition is_option :: "string \<Rightarrow> bool" where
  "is_option a = (case a of [] \<Rightarrow> False | c # _ \<Rightarrow> c = CHR ''-'')"

text \<open>
  Modelled from the spec: the parser, which is not in the sources, reading the command
  line from left to right. \<^verbatim>\<open>--polite\<close> or \<^verbatim>\<open>-p\<close> sets the switch, \<^verbatim>\<open>--title\<close>
  or \<^verbatim>\<open>-t\<close> takes the next word as the title, any other word that starts with a hyphen
  is no argument of the greeting, and every other word is a positional argument. The
  result is \<open>None\<close> where the parser ends the command itself (the help text, a usage
  message); what it writes then, and how the command exits, is not modelled.
\<close>

fun parse_loop ::
  "string list \<Rightarrow> string list \<Rightarrow> string option \<Rightarrow> bool \<Rightarrow> (string list \<times> string option \<times> bool) option"
where
  "parse_loop [] pos t pol = Some (pos, t, pol)"
| "parse_loop (a # rest) pos t pol =
     (if a = ''--polite'' \<or> a = ''-p'' then parse_loop rest pos t True
      else if a = ''--title'' \<or> a = ''-t'' then
        (case rest of [] \<Rightarrow> None | v # rest' \<Rightarrow> parse_loop rest' pos (Some v) pol)
      else if is_option a then None
      else parse_loop rest (pos @ [a]) t pol)"

text \<open>
  Modelled from the spec: the parsed arguments of a command line, which has exactly the
  two positional words \<^verbatim>\<open>personal\<close> and \<^verbatim>\<open>family\<close>, in this order.
\<close>

definition parse_args :: "string list \<Rightarrow> Namespace option" where
  "parse_args argv =
     (case parse_loop argv [] None False of
        Some ([p, f], t, pol) \<Rightarrow>
          Some \<lparr>ns_personal = p, ns_family = f, ns_title = t, ns_polite = pol\<rparr>
      | _ \<Rightarrow> None)"

text \<open>
  Modelled from the spec: \<^verbatim>\<open>process\<close>, which is not in the sources, is ``a
  command-line wrapper that maps parsed arguments onto that function's parameters'',
  ``producing colorized text on standard output''. A title that was not given is passed
  as the empty title.
\<close>

definition process :: "string list \<Rightarrow> world \<Rightarrow> world option" where
  "process argv w =
     (case parse_args argv of
        None \<Rightarrow> None
      | Some arguments \<Rightarrow>
          Some (py_print
            (greet (w_Fore w) (ns_personal arguments) (ns_family arguments)
               (case ns_title arguments of None \<Rightarrow> [] | Some t \<Rightarrow> t) (ns_polite arguments)) w))"

text \<open>
  The arguments of an invocation, to state what a command line supplies: a positional
  word, a title by either flag, the switch by either flag. \<open>render\<close> gives the words
  of the command line.
\<close>

datatype cli_argument =
  Positional string | Title_long string | Title_short string | Polite_long | Polite_short

fun render :: "cli_argument \<Rightarrow> string list" where
  "render (Positional a) = [a]"
| "render (Title_long v) = [''--title'', v]"
| "render (Title_short v) = [''-t'', v]"
| "render Polite_long = [''--polite'']"
| "render Polite_short = [''-p'']"

fun positionals :: "cli_argument list \<Rightarrow> string list" where
  "positionals [] = []"
| "positionals (Positional a # rest) = a # positionals rest"
| "positionals (_ # rest) = positionals rest"

fun given_title :: "cli_argument list \<Rightarrow> string option \<Rightarrow> string option" where
  "given_title [] t = t"
| "given_title (Title_long v # rest) t = given_title rest (Some v)"
| "given_title (Title_short v # rest) t = given_title rest (Some v)"
| "given_title (_ # rest) t = given_title rest t"

fun given_polite :: "cli_argument list \<Rightarrow> bool" where
  "given_polite [] = False"
| "given_polite (Polite_long # rest) = True"
| "given_polite (Polite_short # rest) = True"
| "given_polite (_ # rest) = given_polite rest"

section \<open>Properties\<close>

subsection \<open>Auxiliary facts\<close>

lemma greet_unfold:
  "greet Fore personal family title polite =
     GREEN Fore @ (if polite then ''How do you do, '' else ''Hey, '')
       @ (if title \<noteq> [] then BLUE Fore @ title @ '' '' else [])
       @ RED Fore @ personal @ '' '' @ family @ ''.''"
  by (simp add: greet_def Let_def)

lemma greet_last: "last (greet Fore personal family title polite) = CHR ''.''"
  by (simp add: greet_unfold)

lemma greet_differs:
  assumes "last out \<noteq> CHR ''.''"
  shows "greet Fore personal family title polite \<noteq> out"
proof
  assume "greet Fore personal family title polite = out"
  then have "last (greet Fore personal family title polite) = last out" by simp
  with assms show False by (simp add: greet_last)
qed

lemma outputs_last: "list_all (\<lambda>out. last out \<noteq> CHR ''.'') outputs"
  by (simp add: outputs_def ESC_def)

text \<open>
  A string occurs in \<open>xs @ c # ys\<close>, where it does not hold the character \<open>c\<close>,
  only inside \<open>xs\<close> or inside \<open>ys\<close>.
\<close>

lemma sublist_across_foreign_char:
  assumes "c \<notin> set bs"
  shows "sublist bs (xs @ c # ys) \<longleftrightarrow> sublist bs xs \<or> sublist bs ys"
proof
  assume "sublist bs (xs @ c # ys)"
  then consider "sublist bs xs" | "sublist bs (c # ys)"
    | xs1 xs2 where "bs = xs1 @ xs2" "suffix xs1 xs" "prefix xs2 (c # ys)"
    by (auto simp: sublist_append)
  then show "sublist bs xs \<or> sublist bs ys"
  proof cases
    case 1
    then show ?thesis by simp
  next
    case 2
    then have "prefix bs (c # ys) \<or> sublist bs ys" by (simp add: sublist_Cons_right)
    moreover have "sublist bs ys" if "prefix bs (c # ys)"
      using that assms by (cases bs) (auto simp: prefix_Cons)
    ultimately show ?thesis by blast
  next
    case 3
    show ?thesis
    proof (cases xs2)
      case Nil
      with 3 show ?thesis by auto
    next
      case (Cons d ds)
      with 3(3) have "d = c" by (simp add: prefix_Cons)
      with Cons 3(1) assms show ?thesis by simp
    qed
  qed
next
  assume "sublist bs xs \<or> sublist bs ys"
  then show "sublist bs (xs @ c # ys)"
    by (auto simp: sublist_append sublist_Cons_right)
qed

text \<open>
  The blue code does not occur in the green code, a salutation and the red code, nor
  across their end.
\<close>

lemma sublist_after_markup:
  assumes "ESC \<notin> set sal"
  shows "sublist (ESC # ''[34m'') ((ESC # ''[32m'' @ sal @ ESC # ''[31m'') @ xs)
    \<longleftrightarrow> sublist (ESC # ''[34m'') xs"
proof -
  have E: "ESC \<noteq> CHR ''[''" "ESC \<noteq> CHR ''3''" "ESC \<noteq> CHR ''2''" "ESC \<noteq> CHR ''1''" "ESC \<noteq> CHR ''m''"
    by (simp_all add: ESC_def)
  have sal: "sublist (ESC # ''[34m'') (sal @ zs) \<longleftrightarrow> sublist (ESC # ''[34m'') zs" for zs
    using assms by (induction sal) (auto simp: sublist_Cons_right prefix_Cons)
  show ?thesis
    using E by (simp add: sublist_Cons_right prefix_Cons sal)
qed

text \<open>A positional word is none of the four flags.\<close>

lemma positional_not_flag:
  "\<not> is_option a \<Longrightarrow> a \<noteq> ''--polite'' \<and> a \<noteq> ''-p'' \<and> a \<noteq> ''--title'' \<and> a \<noteq> ''-t''"
  by (auto simp: is_option_def)

text \<open>
  The parser on the words of any list of arguments: the positional words are collected
  in their order, the last title given stands, and the switch is set once it was given.
\<close>

lemma parse_loop_render:
  "list_all (\<lambda>a. \<not> is_option a) (positionals args) \<Longrightarrow>
   parse_loop (concat (map render args)) pos t pol
     = Some (pos @ positionals args, given_title args t, pol \<or> given_polite args)"
proof (induction args arbitrary: pos t pol)
  case Nil
  then show ?case by simp
next
  case (Cons x args)
  show ?case
  proof (cases x)
    case (Positional a)
    with Cons.prems have a: "\<not> is_option a"
      and rest: "list_all (\<lambda>a. \<not> is_option a) (positionals args)"
      by simp_all
    from a Positional Cons.IH [OF rest] show ?thesis
      by (simp add: positional_not_flag)
  next
    case (Title_long v)
    with Cons show ?thesis by simp
  next
    case (Title_short v)
    with Cons show ?thesis by simp
  next
    case Polite_long
    with Cons show ?thesis by simp
  next
    case Polite_short
    with Cons show ?thesis by simp
  qed
qed

text \<open>
  The three command lines the notebook records, in the model of the command: each writes
  the line \<open>greet\<close> returns for the test input of the same position.
\<close>

lemma process_recorded_runs:
  "process [''James'', ''Hetherington''] w = Some (py_print (greet_kw (w_Fore w) (inputs ! 0)) w)"
  "process [''--polite'', ''James'', ''Hetherington''] w
     = Some (py_print (greet_kw (w_Fore w) (inputs ! 1)) w)"
  "process [''James'', ''Hetherington'', ''--title'', ''Dr''] w
     = Some (py_print (greet_kw (w_Fore w) (inputs ! 2)) w)"
  by (simp_all add: process_def parse_args_def is_option_def inputs_def greet_kw_def)

text \<open>
  A statement that holds no \<^verbatim>\<open>print\<close> and no assignment to an attribute leaves the
  surroundings of the frame as they were, whatever it does to the local variables and
  however it ends.
\<close>

lemma exec_keeps_world:
  "\<not> writes_stmt x \<Longrightarrow> exec_stmt x s = Inr (c, s') \<Longrightarrow> fr_world s' = fr_world s"
  "\<not> writes_block xs \<Longrightarrow> exec_block xs s = Inr (c, s') \<Longrightarrow> fr_world s' = fr_world s"
proof (induction x s and xs s arbitrary: c s' and c s' rule: exec_stmt_exec_block.induct)
  case (8 x xs s)
  from "8.prems" obtain c1 s1 where step: "exec_stmt x s = Inr (c1, s1)"
    by (auto split: sum.splits)
  from "8.prems"(1) have nx: "\<not> writes_stmt x" and nxs: "\<not> writes_block xs" by simp_all
  from "8.IH"(1) [OF nx step] have w1: "fr_world s1 = fr_world s" .
  show ?case
  proof (cases c1)
    case Next
    with step "8.prems"(2) have run: "exec_block xs s1 = Inr (c, s')" by simp
    from step Next have step': "exec_stmt x s = Inr (Next, s1)" by simp
    have "fr_world s' = fr_world s1"
      by (rule "8.IH"(2) [OF step' refl refl nxs run])
    with w1 show ?thesis by simp
  next
    case (Returned v)
    with step "8.prems"(2) have "s' = s1" by simp
    with w1 show ?thesis by simp
  qed
qed (auto split: sum.splits option.splits if_splits)

text \<open>
  The statements that write do change the surroundings: a \<^verbatim>\<open>print\<close> adds to the
  standard output, an assignment to an attribute changes the global object.
\<close>

lemma print_writes:
  "exec_block [Print (Constant v)] s
     = Inr (Next, s\<lparr>fr_world := (fr_world s)\<lparr>pw_stdout := pw_stdout (fr_world s) @ [v]\<rparr>\<rparr>)"
  by simp

lemma attr_assign_writes:
  "exec_block [AttrAssign obj a (Constant v)] s
     = Inr (Next,
         s\<lparr>fr_world := (fr_world s)\<lparr>pw_globals := (pw_globals (fr_world s))((obj, a) \<mapsto> v)\<rparr>\<rparr>)"
  by simp

text \<open>
  The body of \<^verbatim>\<open>greet\<close> holds no statement that writes, so a call that returns, with
  any four values as arguments and in any surroundings, leaves the surroundings as they
  were.
\<close>

lemma greet_body_writes_nothing: "\<not> writes_block greet_body"
  by (simp add: greet_body_def)

lemma call_greet_leaves_world:
  assumes "call_greet w personal family title polite = Inr (v, u)"
  shows "u = w"
proof -
  define s where "s = \<lparr>fr_locals = [''personal'' \<mapsto> personal, ''family'' \<mapsto> family,
                       ''title'' \<mapsto> title, ''polite'' \<mapsto> polite], fr_world = w\<rparr>"
  have w: "fr_world s = w" by (simp add: s_def)
  have call: "call_greet w personal family title polite =
     (case exec_block greet_body s of
        Inl err \<Rightarrow> Inl err
      | Inr (Returned v, s') \<Rightarrow> Inr (v, fr_world s')
      | Inr (Next, s') \<Rightarrow> Inr (PyNone, fr_world s'))"
    unfolding call_greet_def s_def ..
  show ?thesis
  proof (cases "exec_block greet_body s")
    case (Inl e)
    with assms call show ?thesis by simp
  next
    case (Inr r)
    obtain c s' where r: "r = (c, s')" by (cases r)
    from Inr r have run: "exec_block greet_body s = Inr (c, s')" by simp
    from exec_keeps_world(2) [OF greet_body_writes_nothing run] w have "fr_world s' = w" by simp
    moreover from assms call run have "u = fr_world s'" by (cases c) simp_all
    ultimately show ?thesis by simp
  qed
qed

text \<open>
  The run of the body on strings and a Boolean, where the surroundings hold the colour
  constants: it returns the string \<open>greet\<close> gives and the surroundings unchanged.
\<close>

lemma holds_fore_globals: "holds_Fore \<lparr>pw_globals = fore_globals Fore, pw_stdout = out\<rparr> Fore"
  by (simp add: holds_Fore_def fore_globals_def)

lemma call_greet_value:
  assumes "holds_Fore w Fore"
  shows "call_greet w (PyStr personal) (PyStr family) (PyStr title) (PyBool polite)
           = Inr (PyStr (greet Fore personal family title polite), w)"
  using assms by (simp add: call_greet_def greet_body_def holds_Fore_def greet_unfold)

text \<open>
  The model of \<^verbatim>\<open>greet\<close> on arbitrary values does have failing runs: a family name that
  is an integer raises \<^verbatim>\<open>TypeError\<close>.
\<close>

lemma greet_py_type_error:
  "greet_py Fore (PyStr personal) (PyInt n) (PyStr title) (PyBool polite) = Inl TypeError"
  by (simp add: greet_py_def and_then_def Let_def)

subsection \<open>The recorded outputs\<close>

text \<open>
  C1: for personal ``James'' and family ``Hetherington'', title and polite at their
  defaults, the test and the recorded cell output give the string
  \<^verbatim>\<open>\x1b[40m\x1b[33mHey, \x1b[47m\x1b[1m\x1b[31mJames Hetherington\<close>, with nothing after
  the family name. The definition of the notebook returns another string: with colorama's
  codes it is \<^verbatim>\<open>\x1b[32mHey, \x1b[31mJames Hetherington.\<close>, and whatever strings the
  three colour attributes hold, the result ends with a full stop and so differs from the
  recorded one.
\<close>

theorem greet_James_Hetherington_not_recorded:
  "greet_kw colorama_Fore
      \<lparr>kw_personal = ''James'', kw_family = ''Hetherington'', kw_title = None, kw_polite = None\<rparr>
     = ESC # ''[32mHey, '' @ ESC # ''[31mJames Hetherington.''
   \<and> greet_kw Fore
      \<lparr>kw_personal = ''James'', kw_family = ''Hetherington'', kw_title = None, kw_polite = None\<rparr>
     \<noteq> ESC # ''[40m'' @ ESC # ''[33mHey, '' @ ESC # ''[47m'' @ ESC # ''[1m''
         @ ESC # ''[31mJames Hetherington''"
  by (simp add: greet_kw_def greet_differs) (simp add: greet_unfold colorama_Fore_def)

text \<open>
  C5: the definition of the Documentation section and the installed function, whose
  outputs the test and the recorded runs hold, would compute the same function. They do
  not: on each of the three test inputs the definition returns a string other than the
  expected one, so the test run against it fails at its first assertion.
\<close>

theorem test_greeter_fails:
  "test_greeter Fore = Inl AssertionError
   \<and> list_all2 (\<lambda>inp out. greet_kw Fore inp \<noteq> out) inputs outputs"
  using outputs_last
  by (simp add: test_greeter_def inputs_def outputs_def greet_kw_def greet_differs)

subsection \<open>The shape of the result\<close>

text \<open>
  No choice of a prefix, of a salutation for each value of the flag and of a token for
  each title makes the shape of the specification fit, even as a mere beginning of the
  result. The personal name ``#'' pins prefix and salutation to what the code writes up
  to the name, the red code included; with the title ``Dr'' the red code comes after the
  title token.
\<close>

lemma pin_prefix:
  assumes "prefix (X @ ''# '') ((ESC # ''[32mHey, '' @ ESC # ''[31m'') @ ''# .'')"
  shows "X = ESC # ''[32mHey, '' @ ESC # ''[31m''"
proof -
  from assms obtain w where "(ESC # ''[32mHey, '' @ ESC # ''[31m'') @ ''# .'' = X @ ''# '' @ w"
    by (auto simp: prefix_def)
  then show ?thesis
    by (simp add: Cons_eq_append_conv ESC_def)
qed

lemma no_specified_shape:
  "\<not> (\<exists>P S T. \<forall>personal family title polite.
        prefix (P @ S polite @ (if title \<noteq> [] then T title else []) @ personal @ '' '' @ family)
          (greet colorama_Fore personal family title polite))"
proof
  assume "\<exists>P S T. \<forall>personal family title polite.
        prefix (P @ S polite @ (if title \<noteq> [] then T title else []) @ personal @ '' '' @ family)
          (greet colorama_Fore personal family title polite)"
  then obtain P S T where shape: "\<And>personal family title polite.
        prefix (P @ S polite @ (if title \<noteq> [] then T title else []) @ personal @ '' '' @ family)
          (greet colorama_Fore personal family title polite)"
    by blast
  from shape [of False "[]" "''#''" "[]"]
  have "prefix ((P @ S False) @ ''# '') ((ESC # ''[32mHey, '' @ ESC # ''[31m'') @ ''# .'')"
    by (simp add: greet_unfold colorama_Fore_def)
  then have X: "P @ S False = ESC # ''[32mHey, '' @ ESC # ''[31m''"
    by (rule pin_prefix)
  from shape [of False "''Dr''" "''#''" "[]"]
  have "prefix ((P @ S False) @ T ''Dr'' @ ''# '') (greet colorama_Fore ''#'' [] ''Dr'' False)"
    by simp
  then show False
    unfolding X by (simp add: greet_unfold colorama_Fore_def ESC_def)
qed

text \<open>
  C2, as stated: the result is exactly the markup prefix, the salutation, the title token
  when a title is given, and then personal name, space and family name. At ``James'',
  ``Hetherington'', title ``Dr'' the string so formed, with the tokens of the code, is
  not even the beginning of the result: the code writes the colour code \<^verbatim>\<open>Fore.RED\<close>
  between the title token and the personal name. Nor do other tokens help: no prefix,
  salutations and title tokens give the beginning of every result.
\<close>

theorem specified_greeting_counterexample:
  "\<not> prefix (specified_greeting colorama_Fore ''James'' ''Hetherington'' ''Dr'' False)
        (greet colorama_Fore ''James'' ''Hetherington'' ''Dr'' False)
   \<and> \<not> (\<exists>P S T. \<forall>personal family title polite.
        prefix (P @ S polite @ (if title \<noteq> [] then T title else []) @ personal @ '' '' @ family)
          (greet colorama_Fore personal family title polite))"
  using no_specified_shape
  by (simp add: specified_greeting_def greet_unfold colorama_Fore_def ESC_def)

text \<open>
  C2, amended: for every personal name, family name, title and flag, the result begins
  with the fixed prefix \<^verbatim>\<open>Fore.GREEN\<close>, then the salutation chosen by the flag alone,
  then, only when the title is not empty, the title token (\<^verbatim>\<open>Fore.BLUE\<close>, the title,
  a space), then the fixed colour code \<^verbatim>\<open>Fore.RED\<close>, then the personal name, a single
  space and the family name.
\<close>

theorem greet_shape:
  "\<exists>rest. greet Fore personal family title polite =
     GREEN Fore @ (if polite then ''How do you do, '' else ''Hey, '')
       @ (if title \<noteq> [] then BLUE Fore @ title @ '' '' else [])
       @ RED Fore @ (personal @ '' '' @ family) @ rest"
  by (simp add: greet_unfold)

text \<open>
  C3: for every personal and family name, the polite call is the plain call with the
  salutation ``Hey, '' replaced by ``How do you do, ''; what stands before the salutation
  and what stands after it are the same strings in both.
\<close>

theorem greet_polite_substitutes_salutation:
  "greet_kw Fore \<lparr>kw_personal = personal, kw_family = family, kw_title = None, kw_polite = None\<rparr>
     = GREEN Fore @ ''Hey, '' @ (RED Fore @ personal @ '' '' @ family @ ''.'')
   \<and> greet_kw Fore \<lparr>kw_personal = personal, kw_family = family, kw_title = None, kw_polite = Some True\<rparr>
     = GREEN Fore @ ''How do you do, '' @ (RED Fore @ personal @ '' '' @ family @ ''.'')"
  by (simp add: greet_kw_def greet_unfold)

text \<open>
  C4, as stated: the call with title ``Dr'' is the plain call with one token inserted
  immediately before the personal name. The plain result for ``James'', ``Hetherington''
  is the markup \<^verbatim>\<open>\x1b[32mHey, \x1b[31m\<close> followed by the names; no token put between
  that markup and ``James'' gives the result of the call with the title.
\<close>

theorem title_before_personal_counterexample:
  "greet_kw colorama_Fore
      \<lparr>kw_personal = ''James'', kw_family = ''Hetherington'', kw_title = None, kw_polite = None\<rparr>
     = (ESC # ''[32mHey, '' @ ESC # ''[31m'') @ ''James'' @ '' Hetherington.''
   \<and> \<not> (\<exists>token. greet_kw colorama_Fore
      \<lparr>kw_personal = ''James'', kw_family = ''Hetherington'', kw_title = Some ''Dr'', kw_polite = None\<rparr>
     = (ESC # ''[32mHey, '' @ ESC # ''[31m'') @ token @ ''James'' @ '' Hetherington.'')"
  by (simp add: greet_kw_def greet_unfold colorama_Fore_def ESC_def)

text \<open>
  C4, amended: for every personal and family name, the call with title ``Dr'' is the
  plain call with the one fixed token \<^verbatim>\<open>Fore.BLUE + "Dr" + " "\<close> inserted immediately
  after the salutation, before the colour code \<^verbatim>\<open>Fore.RED\<close> that precedes the personal
  name; every other byte is unchanged.
\<close>

theorem greet_title_Dr_inserts_token:
  "\<exists>rest.
     greet_kw Fore \<lparr>kw_personal = personal, kw_family = family, kw_title = None, kw_polite = None\<rparr>
       = (GREEN Fore @ ''Hey, '') @ (RED Fore @ personal @ '' '' @ family @ rest)
   \<and> greet_kw Fore \<lparr>kw_personal = personal, kw_family = family, kw_title = Some ''Dr'', kw_polite = None\<rparr>
       = (GREEN Fore @ ''Hey, '') @ (BLUE Fore @ ''Dr '')
           @ (RED Fore @ personal @ '' '' @ family @ rest)"
  by (simp add: greet_kw_def greet_unfold)

text \<open>
  C9, as stated: with an empty title no title colour code appears in the result, for
  every personal and family name. The names are copied as they are: a personal name that
  is the code \<^verbatim>\<open>\x1b[34m\<close> itself puts the code into the result.
\<close>

theorem empty_title_colour_counterexample:
  "sublist (BLUE colorama_Fore)
     (greet_kw colorama_Fore
        \<lparr>kw_personal = ESC # ''[34m'', kw_family = ''x'', kw_title = Some [], kw_polite = None\<rparr>)"
proof -
  have "greet_kw colorama_Fore
      \<lparr>kw_personal = ESC # ''[34m'', kw_family = ''x'', kw_title = Some [], kw_polite = None\<rparr>
    = (ESC # ''[32mHey, '' @ ESC # ''[31m'') @ BLUE colorama_Fore @ '' x.''"
    by (simp add: greet_kw_def greet_unfold colorama_Fore_def)
  then show ?thesis by (simp only: sublist_appendI)
qed

text \<open>
  C9, amended: for every personal and family name and either choice of the flag, the
  call with the empty title returns what the call without a title returns, and the title
  colour code \<^verbatim>\<open>Fore.BLUE\<close> occurs in that result exactly when it occurs in the
  personal name or in the family name: \<^verbatim>\<open>greet\<close> itself writes no title token and no
  title colour code.
\<close>

theorem greet_empty_title:
  "greet_kw colorama_Fore
      \<lparr>kw_personal = personal, kw_family = family, kw_title = Some [], kw_polite = polite\<rparr>
     = greet_kw colorama_Fore
        \<lparr>kw_personal = personal, kw_family = family, kw_title = None, kw_polite = polite\<rparr>
   \<and> (sublist (BLUE colorama_Fore)
        (greet_kw colorama_Fore
           \<lparr>kw_personal = personal, kw_family = family, kw_title = Some [], kw_polite = polite\<rparr>)
      \<longleftrightarrow> sublist (BLUE colorama_Fore) personal \<or> sublist (BLUE colorama_Fore) family)"
proof -
  let ?B = "ESC # ''[34m''"
  have sal: "ESC \<notin> set (if p then ''How do you do, '' else ''Hey, '')" for p
    by (simp add: ESC_def)
  have tail: "sublist ?B (personal @ CHR '' '' # family @ ''.'')
      \<longleftrightarrow> sublist ?B personal \<or> sublist ?B family"
  proof -
    have "sublist ?B (family @ CHR ''.'' # []) \<longleftrightarrow> sublist ?B family \<or> sublist ?B []"
      by (rule sublist_across_foreign_char) (simp add: ESC_def)
    moreover have "sublist ?B (personal @ CHR '' '' # (family @ ''.''))
        \<longleftrightarrow> sublist ?B personal \<or> sublist ?B (family @ ''.'')"
      by (rule sublist_across_foreign_char) (simp add: ESC_def)
    ultimately show ?thesis by simp
  qed
  have "greet colorama_Fore personal family [] p
      = (ESC # ''[32m'' @ (if p then ''How do you do, '' else ''Hey, '') @ ESC # ''[31m'')
          @ (personal @ CHR '' '' # family @ ''.'')" for p
    by (simp add: greet_unfold colorama_Fore_def)
  then have "sublist ?B (greet colorama_Fore personal family [] p)
      \<longleftrightarrow> sublist ?B personal \<or> sublist ?B family" for p
    by (simp only: sublist_after_markup [OF sal] tail)
  then show ?thesis
    by (simp add: greet_kw_def colorama_Fore_def)
qed

subsection \<open>Effects and errors\<close>

text \<open>
  C8, as stated: any two calls with equal personal, family, title and polite return
  equal strings. The body also reads the global \<^verbatim>\<open>Fore\<close>: the call
  \<^verbatim>\<open>greet("James", "Hetherington")\<close> returns one string where \<^verbatim>\<open>Fore\<close> holds
  colorama's codes and another where its three attributes are empty strings.
\<close>

theorem greet_depends_on_Fore_counterexample:
  "call_greet \<lparr>pw_globals = fore_globals colorama_Fore, pw_stdout = []\<rparr>
       (PyStr ''James'') (PyStr ''Hetherington'') (PyStr []) (PyBool False)
     = Inr (PyStr (ESC # ''[32mHey, '' @ ESC # ''[31mJames Hetherington.''),
            \<lparr>pw_globals = fore_globals colorama_Fore, pw_stdout = []\<rparr>)
   \<and> call_greet \<lparr>pw_globals = fore_globals \<lparr>GREEN = [], BLUE = [], RED = []\<rparr>, pw_stdout = []\<rparr>
       (PyStr ''James'') (PyStr ''Hetherington'') (PyStr []) (PyBool False)
     = Inr (PyStr ''Hey, James Hetherington.'',
            \<lparr>pw_globals = fore_globals \<lparr>GREEN = [], BLUE = [], RED = []\<rparr>, pw_stdout = []\<rparr>)
   \<and> ESC # ''[32mHey, '' @ ESC # ''[31mJames Hetherington.'' \<noteq> ''Hey, James Hetherington.''"
proof -
  have a: "greet colorama_Fore ''James'' ''Hetherington'' [] False
      = ESC # ''[32mHey, '' @ ESC # ''[31mJames Hetherington.''"
    by (simp add: greet_unfold colorama_Fore_def)
  have b: "greet \<lparr>GREEN = [], BLUE = [], RED = []\<rparr> ''James'' ''Hetherington'' [] False
      = ''Hey, James Hetherington.''"
    by (simp add: greet_unfold)
  have c: "ESC # ''[32mHey, '' @ ESC # ''[31mJames Hetherington.'' \<noteq> ''Hey, James Hetherington.''"
    by (simp add: ESC_def)
  from call_greet_value
      [OF holds_fore_globals, of colorama_Fore "[]" "''James''" "''Hetherington''" "[]" False]
    call_greet_value
      [OF holds_fore_globals, of "\<lparr>GREEN = [], BLUE = [], RED = []\<rparr>" "[]"
        "''James''" "''Hetherington''" "[]" False]
    c
  show ?thesis unfolding a b by (intro conjI)
qed

text \<open>
  C8, amended: besides its four arguments \<^verbatim>\<open>greet\<close> reads only the attributes
  \<^verbatim>\<open>GREEN\<close>, \<^verbatim>\<open>BLUE\<close> and \<^verbatim>\<open>RED\<close> of the global \<^verbatim>\<open>Fore\<close>. Any two calls with
  equal strings personal, family and title and equal Boolean polite, made in surroundings
  where these three attributes hold the same strings (and which may differ in everything
  else), return equal strings, the one \<open>greet\<close> gives for these colour strings; and a
  call performs no I/O and mutates no state outside its own local variables: the global
  objects and the standard output are after the call what they were before it.
\<close>

theorem call_greet_pure:
  assumes "holds_Fore w Fore" and "holds_Fore w' Fore"
  shows "call_greet w (PyStr personal) (PyStr family) (PyStr title) (PyBool polite)
           = Inr (PyStr (greet Fore personal family title polite), w)
       \<and> call_greet w' (PyStr personal) (PyStr family) (PyStr title) (PyBool polite)
           = Inr (PyStr (greet Fore personal family title polite), w')"
  using call_greet_value [OF assms(1)] call_greet_value [OF assms(2)] by (rule conjI)

theorem call_greet_pure_witness:
  "call_greet \<lparr>pw_globals = fore_globals colorama_Fore, pw_stdout = []\<rparr>
       (PyStr ''James'') (PyStr ''Hetherington'') (PyStr ''Dr'') (PyBool True)
     = Inr (PyStr (greet colorama_Fore ''James'' ''Hetherington'' ''Dr'' True),
            \<lparr>pw_globals = fore_globals colorama_Fore, pw_stdout = []\<rparr>)
   \<and> call_greet \<lparr>pw_globals = fore_globals colorama_Fore, pw_stdout = [PyStr ''earlier'']\<rparr>
       (PyStr ''James'') (PyStr ''Hetherington'') (PyStr ''Dr'') (PyBool True)
     = Inr (PyStr (greet colorama_Fore ''James'' ''Hetherington'' ''Dr'' True),
            \<lparr>pw_globals = fore_globals colorama_Fore, pw_stdout = [PyStr ''earlier'']\<rparr>)"
  by (rule call_greet_pure [OF holds_fore_globals holds_fore_globals])

text \<open>
  C10: for every string personal, family and title and every Boolean polite, the body of
  \<^verbatim>\<open>greet\<close> runs to its \<^verbatim>\<open>return\<close>: no \<^verbatim>\<open>+\<close> of it raises, and the value returned
  is a string, the one \<open>greet\<close> gives.
\<close>

theorem greet_py_total:
  "greet_py Fore (PyStr personal) (PyStr family) (PyStr title) (PyBool polite)
     = Inr (PyStr (greet Fore personal family title polite))"
  by (simp add: greet_py_def and_then_def greet_unfold Let_def)

subsection \<open>The command\<close>

text \<open>
  C6: an invocation that supplies the two positional words, personal then family, with
  any titles and switches among them, writes to the standard output one line, the string
  \<open>greet\<close> returns for that personal and family name, the title given (the empty title
  when none was) and the switch.
\<close>

theorem process_maps_arguments:
  assumes "positionals args = [personal, family]"
    and "\<not> is_option personal" and "\<not> is_option family"
  shows "process (concat (map render args)) w =
     Some (py_print
       (greet (w_Fore w) personal family
          (case given_title args None of None \<Rightarrow> [] | Some t \<Rightarrow> t) (given_polite args)) w)"
proof -
  have "list_all (\<lambda>a. \<not> is_option a) (positionals args)"
    using assms by simp
  then have "parse_loop (concat (map render args)) [] None False
      = Some ([personal, family], given_title args None, given_polite args)"
    using assms(1) by (simp add: parse_loop_render)
  then show ?thesis
    by (simp add: process_def parse_args_def)
qed

theorem process_maps_arguments_witness:
  "process [''James'', ''Hetherington'', ''--title'', ''Dr'']
      \<lparr>w_Fore = colorama_Fore, w_stdout = []\<rparr>
    = Some \<lparr>w_Fore = colorama_Fore,
        w_stdout = [greet colorama_Fore ''James'' ''Hetherington'' ''Dr'' False]\<rparr>"
  using process_maps_arguments
    [of "[Positional ''James'', Positional ''Hetherington'', Title_long ''Dr'']"
      "''James''" "''Hetherington''" "\<lparr>w_Fore = colorama_Fore, w_stdout = []\<rparr>"]
  by (simp add: is_option_def py_print_def)

end
